theory Spec2Isabelle
  imports Complex_Main "HOL-Library.Multiset"
begin

section \<open>Fleet analytics dashboard: the data transformations of app.py\<close>

text \<open>
  The script app.py loads a workbook into pandas frames, preprocesses the Trips sheet
  (lines 31-36) and runs one of six analyses. A frame is modelled as the list of its
  rows in index order, a row as a record with one field per column. A cell that pandas
  holds as NaN, None or NaT is an explicit missing value here: an identifier or a
  timestamp is an \<open>option\<close>, a floating-point cell is an \<open>fnum\<close>.
\<close>

subsection \<open>Numeric cells\<close>

text \<open>
  A float64 cell: a finite value, one of the two infinities, or NaN. Finite values are
  exact rationals, so the rounding of float64 arithmetic is not part of the model;
  every zero is the positive zero (the script only ever divides by zeros that come out
  of an integer-to-float conversion, which are positive).
\<close>

datatype fnum = Fin rat | PInf | NInf | NaN

text \<open>numpy's true division on float64: never raises, division by zero yields an
  infinity of the sign of the dividend, and 0/0 or inf/inf yield NaN.\<close>

fun fdiv :: "fnum \<Rightarrow> fnum \<Rightarrow> fnum" where
  "fdiv NaN _ = NaN"
| "fdiv _ NaN = NaN"
| "fdiv (Fin x) (Fin y) =
     (if y \<noteq> 0 then Fin (x / y) else if 0 < x then PInf else if x < 0 then NInf else NaN)"
| "fdiv (Fin x) PInf = Fin 0"
| "fdiv (Fin x) NInf = Fin 0"
| "fdiv PInf (Fin y) = (if 0 \<le> y then PInf else NInf)"
| "fdiv NInf (Fin y) = (if 0 \<le> y then NInf else PInf)"
| "fdiv PInf PInf = NaN"
| "fdiv PInf NInf = NaN"
| "fdiv NInf PInf = NaN"
| "fdiv NInf NInf = NaN"

fun fadd :: "fnum \<Rightarrow> fnum \<Rightarrow> fnum" where
  "fadd NaN _ = NaN"
| "fadd _ NaN = NaN"
| "fadd (Fin x) (Fin y) = Fin (x + y)"
| "fadd (Fin x) PInf = PInf"
| "fadd (Fin x) NInf = NInf"
| "fadd PInf (Fin y) = PInf"
| "fadd NInf (Fin y) = NInf"
| "fadd PInf PInf = PInf"
| "fadd NInf NInf = NInf"
| "fadd PInf NInf = NaN"
| "fadd NInf PInf = NaN"

text \<open>Comparisons: every comparison with NaN is false.\<close>

fun flt :: "fnum \<Rightarrow> fnum \<Rightarrow> bool" where
  "flt NaN _ = False"
| "flt _ NaN = False"
| "flt (Fin x) (Fin y) = (x < y)"
| "flt (Fin x) PInf = True"
| "flt (Fin x) NInf = False"
| "flt PInf _ = False"
| "flt NInf (Fin y) = True"
| "flt NInf PInf = True"
| "flt NInf NInf = False"

definition fgt :: "fnum \<Rightarrow> fnum \<Rightarrow> bool" where
  "fgt a b = flt b a"

fun fge :: "fnum \<Rightarrow> fnum \<Rightarrow> bool" where
  "fge NaN _ = False"
| "fge _ NaN = False"
| "fge a b = (\<not> flt a b)"

text \<open>Series.sum and Series.mean with the default skipna=True: NaN cells are left out;
  the sum of nothing is 0, the mean of nothing is NaN.\<close>

definition dropna_f :: "fnum list \<Rightarrow> fnum list" where
  "dropna_f xs = filter (\<lambda>x. x \<noteq> NaN) xs"

definition fsum :: "fnum list \<Rightarrow> fnum" where
  "fsum xs = foldl fadd (Fin 0) (dropna_f xs)"

definition fmean :: "fnum list \<Rightarrow> fnum" where
  "fmean xs = (if dropna_f xs = [] then NaN
               else fdiv (fsum xs) (Fin (of_nat (length (dropna_f xs)))))"

subsection \<open>Python errors and strings\<close>





subsection \<open>Allocated vs available vehicles (lines 146-158)\<close>






subsection \<open>Timestamps\<close>

text \<open>
  A datetime64[ns] cell is the number of nanoseconds since the epoch, or NaT (\<open>None\<close>).
  A timedelta64[ns] cell is a number of nanoseconds, or NaT.
\<close>

definition ns_per_sec :: int where
  "ns_per_sec = 1000000000"

definition ns_per_day :: int where
  "ns_per_day = 86400 * ns_per_sec"

text \<open>Subtraction of two datetime columns: NaT where either side is NaT.\<close>

definition tdelta :: "int option \<Rightarrow> int option \<Rightarrow> int option" where
  "tdelta a b = (case a of None \<Rightarrow> None
                 | Some x \<Rightarrow> (case b of None \<Rightarrow> None | Some y \<Rightarrow> Some (x - y)))"

text \<open>\<open>.dt.total_seconds()\<close>: a float, NaN for NaT.\<close>

definition total_seconds :: "int option \<Rightarrow> fnum" where
  "total_seconds td = (case td of None \<Rightarrow> NaN | Some n \<Rightarrow> Fin (of_int n / of_int ns_per_sec))"

text \<open>\<open>.dt.days\<close>: the whole days of a timedelta, rounded towards minus infinity;
  NaN for NaT.\<close>

definition td_days :: "int option \<Rightarrow> fnum" where
  "td_days td = (case td of None \<Rightarrow> NaN | Some n \<Rightarrow> Fin (of_int (n div ns_per_day)))"

text \<open>Comparison of a datetime cell with a scalar: false for NaT.\<close>

definition ts_ge :: "int option \<Rightarrow> int \<Rightarrow> bool" where
  "ts_ge d c = (case d of None \<Rightarrow> False | Some x \<Rightarrow> c \<le> x)"

definition ts_lt :: "int option \<Rightarrow> int \<Rightarrow> bool" where
  "ts_lt d c = (case d of None \<Rightarrow> False | Some x \<Rightarrow> x < c)"

subsection \<open>The Trips sheet and its preprocessing (lines 31-36)\<close>

text \<open>
  A row of the Trips sheet as it is loaded. Identifiers are drawn from a totally ordered
  type \<open>'k\<close> (strings or numbers) and may be missing; the three date and time cells are
  raw cells of a type \<open>'c\<close> until they are parsed.
\<close>

record ('k, 'c) trip =
  Trip_ID :: "'k option"
  Vehicle_ID :: "'k option"
  Driver_ID :: "'k option"
  Trip_Date :: 'c
  Start_Time :: 'c
  End_Time :: 'c
  Distance :: fnum

text \<open>A preprocessed row: the same columns, with the two derived ones.\<close>

record ('k, 'c) ptrip = "('k, 'c) trip" +
  Trip_DateTime :: "int option"
  Duration_hrs :: fnum

text \<open>
  Assigning a Series to a column aligns it on the index: row \<open>i\<close> receives the value
  the Series has at label \<open>i\<close>, and a missing value if it has none.
\<close>

definition col_at :: "'a option list \<Rightarrow> nat \<Rightarrow> 'a option" where
  "col_at s i = (if i < length s then s ! i else None)"

text \<open>
  Line 35: the calendar date of Trip Date (\<open>strftime('%Y-%m-%d')\<close>) and the time of
  day of Start Time to the second (\<open>strftime('%H:%M:%S')\<close>), joined and parsed again.
  The text is NaN, and the result NaT, where either cell is NaT.
\<close>

definition combine_datetime :: "int option \<Rightarrow> int option \<Rightarrow> int option" where
  "combine_datetime d s =
     (case d of None \<Rightarrow> None
      | Some x \<Rightarrow> (case s of None \<Rightarrow> None
         | Some y \<Rightarrow> Some ((x div ns_per_day) * ns_per_day
                           + ((y mod ns_per_day) div ns_per_sec) * ns_per_sec)))"

text \<open>
  Lines 32-36. \<open>to_datetime\<close> stands for \<open>pd.to_datetime(column, errors='coerce')\<close>,
  a function of the whole column that never raises and yields NaT for what it cannot
  parse; it is a parameter of the model.
\<close>

definition preprocess ::
  "('c list \<Rightarrow> int option list) \<Rightarrow> ('k, 'c) trip list \<Rightarrow> ('k, int option) ptrip list" where
  "preprocess to_datetime trips_df =
     (let dates = to_datetime (map Trip_Date trips_df);
          starts = to_datetime (map Start_Time trips_df);
          ends = to_datetime (map End_Time trips_df)
      in map (\<lambda>i. let r = trips_df ! i;
                      d = col_at dates i; s = col_at starts i; e = col_at ends i
                  in \<lparr>Trip_ID = Trip_ID r, Vehicle_ID = Vehicle_ID r, Driver_ID = Driver_ID r,
                      Trip_Date = d, Start_Time = s, End_Time = e, Distance = Distance r,
                      Trip_DateTime = combine_datetime d s,
                      Duration_hrs = fdiv (total_seconds (tdelta e s)) (Fin 3600)\<rparr>)
             [0..<length trips_df])"

subsection \<open>Grouping\<close>

text \<open>
  \<open>DataFrame.groupby(key)\<close> with its defaults: rows whose key is missing belong to no
  group, the groups come out in ascending key order, and each group holds its rows in
  frame order. \<open>present\<close> is the list of the cells of a column that are not missing.
\<close>

definition present :: "'a option list \<Rightarrow> 'a list" where
  "present xs = concat (map (\<lambda>x. case x of None \<Rightarrow> [] | Some d \<Rightarrow> [d]) xs)"

definition group_keys :: "('k::linorder) option list \<Rightarrow> 'k list" where
  "group_keys ks = sort (remdups (present ks))"

definition groupby :: "('r \<Rightarrow> ('k::linorder) option) \<Rightarrow> 'r list \<Rightarrow> ('k \<times> 'r list) list" where
  "groupby key df = map (\<lambda>v. (v, filter (\<lambda>r. key r = Some v) df)) (group_keys (map key df))"

text \<open>The \<open>count\<close> aggregation: the number of cells that are not missing.\<close>

definition count_col :: "'a option list \<Rightarrow> nat" where
  "count_col xs = length (filter (\<lambda>x. x \<noteq> None) xs)"

subsection \<open>Underutilized vehicles, 7-day window (lines 69-75)\<close>

text \<open>Line 69: \<open>datetime.now() - timedelta(days=7)\<close>; the clock reading is an input.\<close>

definition date_cutoff :: "int \<Rightarrow> int" where
  "date_cutoff now = now - 7 * ns_per_day"

definition recent_trips :: "int \<Rightarrow> ('k, int option) ptrip list \<Rightarrow> ('k, int option) ptrip list" where
  "recent_trips now trips_df = filter (\<lambda>r. ts_ge (Trip_Date r) (date_cutoff now)) trips_df"

record 'k summary_row =
  S_Vehicle_ID :: 'k
  Trips_7_days :: nat
  Distance_7_days :: fnum

definition summary :: "int \<Rightarrow> ('k::linorder, int option) ptrip list \<Rightarrow> 'k summary_row list" where
  "summary now trips_df =
     map (\<lambda>(v, g). \<lparr>S_Vehicle_ID = v,
                     Trips_7_days = count_col (map Trip_ID g),
                     Distance_7_days = fsum (map Distance g)\<rparr>)
         (groupby Vehicle_ID (recent_trips now trips_df))"

subsection \<open>Underutilized vehicles, long-term window (lines 96-126)\<close>

text \<open>The \<open>min\<close> and \<open>max\<close> aggregations of a datetime column: NaT cells are left
  out, and the result is NaT when nothing is left.\<close>

definition agg_min :: "int option list \<Rightarrow> int option" where
  "agg_min xs = (case present xs of [] \<Rightarrow> None | d # ds \<Rightarrow> Some (fold min ds d))"

definition agg_max :: "int option list \<Rightarrow> int option" where
  "agg_max xs = (case present xs of [] \<Rightarrow> None | d # ds \<Rightarrow> Some (fold max ds d))"

record 'k vehicle_summary =
  F_Vehicle_ID :: 'k
  Total_Trips :: nat
  Total_Distance_km :: fnum
  First_Trip_Date :: "int option"
  Last_Trip_Date :: "int option"
  Days_Active :: fnum
  Avg_Trips_Week :: fnum

record 'k vehicle_status = "'k vehicle_summary" +
  Status :: string

text \<open>Line 107: \<open>(Last Trip Date - First Trip Date).dt.days + 1\<close>.\<close>

definition days_active :: "int option \<Rightarrow> int option \<Rightarrow> fnum" where
  "days_active first_date last_date = fadd (td_days (tdelta last_date first_date)) (Fin 1)"

text \<open>Line 108: \<open>Total Trips / (Days Active / 7)\<close>.\<close>

definition avg_trips_week :: "nat \<Rightarrow> fnum \<Rightarrow> fnum" where
  "avg_trips_week trips days = fdiv (Fin (of_nat trips)) (fdiv days (Fin 7))"

text \<open>Lines 97-108. (Line 96 parses a column that is already parsed.)\<close>

definition full_summary :: "('k::linorder, int option) ptrip list \<Rightarrow> 'k vehicle_summary list" where
  "full_summary trips_df =
     map (\<lambda>(v, g).
            let first_date = agg_min (map Trip_Date g); last_date = agg_max (map Trip_Date g);
                trips = count_col (map Trip_ID g); days = days_active first_date last_date
            in \<lparr>F_Vehicle_ID = v, Total_Trips = trips,
                Total_Distance_km = fsum (map Distance g),
                First_Trip_Date = first_date, Last_Trip_Date = last_date,
                Days_Active = days, Avg_Trips_Week = avg_trips_week trips days\<rparr>)
         (groupby Vehicle_ID trips_df)"

text \<open>Lines 111 and 114.\<close>

definition filtered_summary :: "'k vehicle_summary list \<Rightarrow> 'k vehicle_summary list" where
  "filtered_summary rows = filter (\<lambda>r. fge (Days_Active r) (Fin 28)) rows"

definition fleet_avg :: "'k vehicle_summary list \<Rightarrow> fnum" where
  "fleet_avg rows = fmean (map Avg_Trips_Week (filtered_summary rows))"

text \<open>Lines 122-126, the function applied to each row of the full summary.\<close>

definition status_of :: "fnum \<Rightarrow> 'k vehicle_summary \<Rightarrow> string" where
  "status_of avg row =
     (if flt (Days_Active row) (Fin 28) then ''Too New''
      else if flt (Avg_Trips_Week row) avg then ''Underutilized'' else ''Utilized'')"

text \<open>
  What the long-term analysis shows: the table of line 128 and the fleet average that
  line 131 prints. (Lines 117-119 label a filtered copy that is not shown.)
\<close>

definition long_term ::
  "('k::linorder, int option) ptrip list \<Rightarrow> 'k vehicle_status list \<times> fnum" where
  "long_term trips_df =
     (let rows = full_summary trips_df; avg = fleet_avg rows
      in (map (\<lambda>r. \<lparr>F_Vehicle_ID = F_Vehicle_ID r, Total_Trips = Total_Trips r,
                      Total_Distance_km = Total_Distance_km r,
                      First_Trip_Date = First_Trip_Date r, Last_Trip_Date = Last_Trip_Date r,
                      Days_Active = Days_Active r, Avg_Trips_Week = Avg_Trips_Week r,
                      Status = status_of avg r\<rparr>) rows,
          avg))"

subsection \<open>Long trip vs expected duration (lines 197-200)\<close>

record ('k, 'c) speed_trip = "('k, 'c) ptrip" +
  Expected_Duration_hrs :: fnum
  Speed_kmh :: fnum

text \<open>Lines 198-199: the two columns added to each row.\<close>

definition with_speed :: "('k, 'c) ptrip \<Rightarrow> ('k, 'c) speed_trip" where
  "with_speed r =
     \<lparr>Trip_ID = Trip_ID r, Vehicle_ID = Vehicle_ID r, Driver_ID = Driver_ID r,
      Trip_Date = Trip_Date r, Start_Time = Start_Time r, End_Time = End_Time r,
      Distance = Distance r, Trip_DateTime = Trip_DateTime r, Duration_hrs = Duration_hrs r,
      Expected_Duration_hrs = fdiv (Distance r) (Fin 40),
      Speed_kmh = fdiv (Distance r) (Duration_hrs r)\<rparr>"

definition long_trips :: "('k, 'c) ptrip list \<Rightarrow> ('k, 'c) speed_trip list" where
  "long_trips trips_df = filter (\<lambda>r. flt (Speed_kmh r) (Fin 10)) (map with_speed trips_df)"

subsection \<open>Sorting\<close>

text \<open>
  \<open>DataFrame.sort_values\<close> computes an indexer, a permutation of the row labels
  that puts the keys in order, and takes the rows in that order; each row keeps its
  label. Which permutation it is among those that sort the keys is left to the library,
  so the indexer is a parameter of the model, and a row label that the indexer names is
  always a label of the frame. Missing keys go last.
\<close>

definition take_rows :: "'r list \<Rightarrow> nat list \<Rightarrow> (nat \<times> 'r) list" where
  "take_rows df indexer = map (\<lambda>i. (i, df ! i)) indexer"

fun opt_le :: "('a::linorder) option \<Rightarrow> 'a option \<Rightarrow> bool" where
  "opt_le _ None = True"
| "opt_le None (Some b) = False"
| "opt_le (Some a) (Some b) = (a \<le> b)"

text \<open>Insertion sort by a comparison, for indexers that can be run: inserting the
  elements from the last to the first keeps equal keys in their order.\<close>

fun insort_by :: "('a \<Rightarrow> 'a \<Rightarrow> bool) \<Rightarrow> 'a \<Rightarrow> 'a list \<Rightarrow> 'a list" where
  "insort_by le x [] = [x]"
| "insort_by le x (y # ys) = (if le x y then x # y # ys else y # insort_by le x ys)"

definition sort_by :: "('a \<Rightarrow> 'a \<Rightarrow> bool) \<Rightarrow> 'a list \<Rightarrow> 'a list" where
  "sort_by le xs = foldr (insort_by le) xs []"

subsection \<open>High idle time (lines 161-165)\<close>

text \<open>The order of \<open>sort_values(['Vehicle ID', 'Trip DateTime'])\<close>: by vehicle, and by
  date and time within a vehicle.\<close>

definition sort_key_le :: "('k::linorder, int option) ptrip \<Rightarrow> ('k, int option) ptrip \<Rightarrow> bool" where
  "sort_key_le a b =
     (if Vehicle_ID a = Vehicle_ID b then opt_le (Trip_DateTime a) (Trip_DateTime b)
      else opt_le (Vehicle_ID a) (Vehicle_ID b))"

definition lexsort_ok ::
  "(('k::linorder, int option) ptrip list \<Rightarrow> nat list) \<Rightarrow> ('k, int option) ptrip list \<Rightarrow> bool" where
  "lexsort_ok lexsort df \<longleftrightarrow>
     mset (lexsort df) = mset [0..<length df]
     \<and> sorted_wrt (\<lambda>i j. sort_key_le (df ! i) (df ! j)) (lexsort df)"

definition lexsort_stable :: "('k::linorder, int option) ptrip list \<Rightarrow> nat list" where
  "lexsort_stable df = sort_by (\<lambda>i j. sort_key_le (df ! i) (df ! j)) [0..<length df]"

text \<open>Line 162: the sorted frame with its labels, and its rows alone.\<close>

definition trips_sorted ::
  "(('k::linorder, int option) ptrip list \<Rightarrow> nat list) \<Rightarrow> ('k, int option) ptrip list
     \<Rightarrow> (nat \<times> ('k, int option) ptrip) list" where
  "trips_sorted lexsort trips_df = take_rows trips_df (lexsort trips_df)"

definition sorted_rows ::
  "(('k::linorder, int option) ptrip list \<Rightarrow> nat list) \<Rightarrow> ('k, int option) ptrip list
     \<Rightarrow> ('k, int option) ptrip list" where
  "sorted_rows lexsort trips_df = map snd (trips_sorted lexsort trips_df)"

text \<open>
  Line 163, \<open>groupby('Vehicle ID')['Trip DateTime'].diff()\<close>: each row is compared
  with the row before it in its own group, that is the nearest earlier row of the frame
  with the same Vehicle ID. The first row of a group and a row without Vehicle ID get
  NaT, as does a row where either date is NaT.
\<close>

definition prev_in_group :: "('k, int option) ptrip list \<Rightarrow> nat \<Rightarrow> ('k, int option) ptrip option" where
  "prev_in_group rows i =
     (case Vehicle_ID (rows ! i) of None \<Rightarrow> None
      | Some v \<Rightarrow> find (\<lambda>r. Vehicle_ID r = Some v) (rev (take i rows)))"

definition idle_time_hrs :: "('k, int option) ptrip list \<Rightarrow> nat \<Rightarrow> fnum" where
  "idle_time_hrs rows i =
     (case prev_in_group rows i of None \<Rightarrow> NaN
      | Some p \<Rightarrow> fdiv (total_seconds (tdelta (Trip_DateTime (rows ! i)) (Trip_DateTime p)))
                       (Fin 3600))"

text \<open>The sorted frame with its new column: label, row, Idle Time (hrs).\<close>

definition with_idle_time ::
  "(('k::linorder, int option) ptrip list \<Rightarrow> nat list) \<Rightarrow> ('k, int option) ptrip list
     \<Rightarrow> (nat \<times> ('k, int option) ptrip \<times> fnum) list" where
  "with_idle_time lexsort trips_df =
     (let s = trips_sorted lexsort trips_df
      in map (\<lambda>i. (fst (s ! i), snd (s ! i), idle_time_hrs (sorted_rows lexsort trips_df) i))
             [0..<length s])"

text \<open>Line 164.\<close>

definition high_idle ::
  "(('k::linorder, int option) ptrip list \<Rightarrow> nat list) \<Rightarrow> ('k, int option) ptrip list
     \<Rightarrow> (nat \<times> ('k, int option) ptrip \<times> fnum) list" where
  "high_idle lexsort trips_df =
     filter (\<lambda>(l, r, h). fgt h (Fin 6)) (with_idle_time lexsort trips_df)"

text \<open>Line 165: the three columns shown, and \<open>dropna()\<close> on them, which drops a row
  with a missing value in any of the three.\<close>

record 'k idle_row =
  I_index :: nat
  I_Vehicle_ID :: "'k option"
  I_Trip_ID :: "'k option"
  Idle_Time_hrs :: fnum

definition dropna_idle :: "'k idle_row list \<Rightarrow> 'k idle_row list" where
  "dropna_idle xs =
     filter (\<lambda>x. I_Vehicle_ID x \<noteq> None \<and> I_Trip_ID x \<noteq> None \<and> Idle_Time_hrs x \<noteq> NaN) xs"

definition high_idle_report ::
  "(('k::linorder, int option) ptrip list \<Rightarrow> nat list) \<Rightarrow> ('k, int option) ptrip list
     \<Rightarrow> 'k idle_row list" where
  "high_idle_report lexsort trips_df =
     dropna_idle (map (\<lambda>(l, r, h). \<lparr>I_index = l, I_Vehicle_ID = Vehicle_ID r,
                                     I_Trip_ID = Trip_ID r, Idle_Time_hrs = h\<rparr>)
                      (high_idle lexsort trips_df))"

subsection \<open>High/low driver trip counts (lines 182-194)\<close>

record 'k driver_row =
  D_Driver_ID :: 'k
  Trip_Count :: nat
  Duty_Hours :: fnum

text \<open>Lines 183-186.\<close>

definition driver_stats :: "('k::linorder, int option) ptrip list \<Rightarrow> 'k driver_row list" where
  "driver_stats trips_df =
     map (\<lambda>(d, g). \<lparr>D_Driver_ID = d,
                     Trip_Count = count_col (map Trip_ID g),
                     Duty_Hours = fsum (map Duration_hrs g)\<rparr>)
         (groupby Driver_ID trips_df)"

text \<open>
  \<open>sort_values(by='Trip Count', ascending=...)\<close> is called without \<open>kind\<close>, that is
  with the library's default \<open>quicksort\<close>, which the library documents as not stable.
  The indexer that the library computes from the flag and the key column is a
  parameter \<open>argsort\<close>; what is known of it is that it is a permutation of the labels
  that puts the keys in the order asked for.
\<close>

definition count_le :: "bool \<Rightarrow> nat \<Rightarrow> nat \<Rightarrow> bool" where
  "count_le ascending a b = (if ascending then a \<le> b else b \<le> a)"

definition argsort_ok :: "(bool \<Rightarrow> nat list \<Rightarrow> nat list) \<Rightarrow> bool \<Rightarrow> nat list \<Rightarrow> bool" where
  "argsort_ok argsort ascending keys \<longleftrightarrow>
     mset (argsort ascending keys) = mset [0..<length keys]
     \<and> sorted_wrt (\<lambda>i j. count_le ascending (keys ! i) (keys ! j)) (argsort ascending keys)"





definition argsort_reversing :: "bool \<Rightarrow> nat list \<Rightarrow> nat list" where
  "argsort_reversing ascending keys =
     sort_by (\<lambda>i j. count_le ascending (keys ! i) (keys ! j)) (rev [0..<length keys])"

subsection \<open>Sample frames\<close>

text \<open>
  The example of the specification: vehicle 1 with a trip of 50 km on day 0 and a trip
  of 60 km on day 7, analysed on day 14, so that the second trip is dated exactly at
  the cutoff.
\<close>

definition sample_trip_old :: "(nat, int option) ptrip" where
  "sample_trip_old =
     \<lparr>Trip_ID = Some 1, Vehicle_ID = Some 1, Driver_ID = Some 5,
      Trip_Date = Some 0, Start_Time = Some 0, End_Time = Some (7200 * ns_per_sec),
      Distance = Fin 50, Trip_DateTime = Some 0, Duration_hrs = Fin 2\<rparr>"

definition sample_trip_cutoff :: "(nat, int option) ptrip" where
  "sample_trip_cutoff =
     \<lparr>Trip_ID = Some 2, Vehicle_ID = Some 1, Driver_ID = Some 5,
      Trip_Date = Some (7 * ns_per_day), Start_Time = Some 0, End_Time = Some (3600 * ns_per_sec),
      Distance = Fin 60, Trip_DateTime = Some (7 * ns_per_day), Duration_hrs = Fin 1\<rparr>"

definition sample_now :: int where
  "sample_now = 14 * ns_per_day"

text \<open>A raw sheet whose cells are already timestamps or unparseable (\<open>None\<close>), to be
  read with the parser that returns each column as it is.\<close>

definition sample_raw :: "(nat, int option) trip list" where
  "sample_raw =
     [\<lparr>Trip_ID = Some 1, Vehicle_ID = Some 1, Driver_ID = Some 5,
       Trip_Date = Some (10 * ns_per_day), Start_Time = Some 0, End_Time = Some (3600 * ns_per_sec),
       Distance = Fin 50\<rparr>,
      \<lparr>Trip_ID = Some 2, Vehicle_ID = Some 1, Driver_ID = Some 5,
       Trip_Date = None, Start_Time = Some 0, End_Time = Some (3600 * ns_per_sec),
       Distance = Fin 60\<rparr>]"

text \<open>Four trips for the speed analysis: no duration, zero duration, slow, fast.\<close>

definition sample_speed_trips :: "(nat, int option) ptrip list" where
  "sample_speed_trips =
     [\<lparr>Trip_ID = Some 1, Vehicle_ID = Some 1, Driver_ID = Some 5,
       Trip_Date = Some 0, Start_Time = Some 0, End_Time = None,
       Distance = Fin 5, Trip_DateTime = Some 0, Duration_hrs = NaN\<rparr>,
      \<lparr>Trip_ID = Some 2, Vehicle_ID = Some 1, Driver_ID = Some 5,
       Trip_Date = Some 0, Start_Time = Some 0, End_Time = Some 0,
       Distance = Fin 5, Trip_DateTime = Some 0, Duration_hrs = Fin 0\<rparr>,
      \<lparr>Trip_ID = Some 3, Vehicle_ID = Some 2, Driver_ID = Some 5,
       Trip_Date = Some 0, Start_Time = Some 0, End_Time = Some (7200 * ns_per_sec),
       Distance = Fin 12, Trip_DateTime = Some 0, Duration_hrs = Fin 2\<rparr>,
      \<lparr>Trip_ID = Some 4, Vehicle_ID = Some 2, Driver_ID = Some 6,
       Trip_Date = Some 0, Start_Time = Some 0, End_Time = Some (3600 * ns_per_sec),
       Distance = Fin 45, Trip_DateTime = Some 0, Duration_hrs = Fin 1\<rparr>]"

text \<open>A preprocessed one-hour trip of 10 km, given its Trip ID, vehicle and day.\<close>

definition sample_row :: "nat \<Rightarrow> nat \<Rightarrow> int \<Rightarrow> (nat, int option) ptrip" where
  "sample_row tid vid day =
     \<lparr>Trip_ID = Some tid, Vehicle_ID = Some vid, Driver_ID = Some 5,
      Trip_Date = Some (day * ns_per_day), Start_Time = Some 0,
      End_Time = Some (3600 * ns_per_sec), Distance = Fin 10,
      Trip_DateTime = Some (day * ns_per_day), Duration_hrs = Fin 1\<rparr>"


text \<open>Vehicle 1 drives on day 0 and on day 1, vehicle 2 twice on day 0 two hours
  apart; the rows are not in order. In the second frame the trip of day 1 has lost its
  Trip ID.\<close>

definition sample_idle_trips :: "(nat, int option) ptrip list" where
  "sample_idle_trips =
     [(sample_row 1 2 0) \<lparr>Trip_DateTime := Some (7200 * ns_per_sec)\<rparr>,
      sample_row 2 1 1,
      sample_row 3 2 0,
      sample_row 4 1 0]"

definition sample_idle_no_id :: "(nat, int option) ptrip list" where
  "sample_idle_no_id =
     [(sample_row 1 2 0) \<lparr>Trip_DateTime := Some (7200 * ns_per_sec)\<rparr>,
      (sample_row 2 1 1) \<lparr>Trip_ID := None\<rparr>,
      sample_row 3 2 0,
      sample_row 4 1 0]"




section \<open>Properties\<close>

subsection \<open>Allocation ratio\<close>



subsection \<open>Preprocessing\<close>

lemma preprocess_length: "length (preprocess f df) = length df"
  by (simp add: preprocess_def Let_def)

lemma preprocess_nth:
  assumes "i < length df"
  shows "preprocess f df ! i =
    \<lparr>Trip_ID = Trip_ID (df ! i), Vehicle_ID = Vehicle_ID (df ! i), Driver_ID = Driver_ID (df ! i),
     Trip_Date = col_at (f (map Trip_Date df)) i,
     Start_Time = col_at (f (map Start_Time df)) i,
     End_Time = col_at (f (map End_Time df)) i,
     Distance = Distance (df ! i),
     Trip_DateTime = combine_datetime (col_at (f (map Trip_Date df)) i)
                                      (col_at (f (map Start_Time df)) i),
     Duration_hrs = fdiv (total_seconds (tdelta (col_at (f (map End_Time df)) i)
                                                (col_at (f (map Start_Time df)) i))) (Fin 3600)\<rparr>"
  using assms by (simp add: preprocess_def Let_def)



text \<open>
  Claim C9. Preprocessing leaves the Trip ID, Vehicle ID, Driver ID and Distance
  columns as they were and keeps the number and the order of the rows; it only replaces
  the three date and time columns by their parsed values and adds Trip DateTime and
  Duration (hrs).
\<close>

theorem preprocess_frame:
  "length (preprocess f df) = length df
   \<and> map Trip_ID (preprocess f df) = map Trip_ID df
   \<and> map Vehicle_ID (preprocess f df) = map Vehicle_ID df
   \<and> map Driver_ID (preprocess f df) = map Driver_ID df
   \<and> map Distance (preprocess f df) = map Distance df
   \<and> map Trip_Date (preprocess f df) = map (col_at (f (map Trip_Date df))) [0..<length df]
   \<and> map Start_Time (preprocess f df) = map (col_at (f (map Start_Time df))) [0..<length df]
   \<and> map End_Time (preprocess f df) = map (col_at (f (map End_Time df))) [0..<length df]"
proof (intro conjI)
  show "length (preprocess f df) = length df"
    by (rule preprocess_length)
  show "map Trip_ID (preprocess f df) = map Trip_ID df"
    by (rule nth_equalityI) (simp_all add: preprocess_length preprocess_nth)
  show "map Vehicle_ID (preprocess f df) = map Vehicle_ID df"
    by (rule nth_equalityI) (simp_all add: preprocess_length preprocess_nth)
  show "map Driver_ID (preprocess f df) = map Driver_ID df"
    by (rule nth_equalityI) (simp_all add: preprocess_length preprocess_nth)
  show "map Distance (preprocess f df) = map Distance df"
    by (rule nth_equalityI) (simp_all add: preprocess_length preprocess_nth)
  show "map Trip_Date (preprocess f df) = map (col_at (f (map Trip_Date df))) [0..<length df]"
    by (rule nth_equalityI) (simp_all add: preprocess_length preprocess_nth)
  show "map Start_Time (preprocess f df) = map (col_at (f (map Start_Time df))) [0..<length df]"
    by (rule nth_equalityI) (simp_all add: preprocess_length preprocess_nth)
  show "map End_Time (preprocess f df) = map (col_at (f (map End_Time df))) [0..<length df]"
    by (rule nth_equalityI) (simp_all add: preprocess_length preprocess_nth)
qed

subsection \<open>Grouping\<close>

lemma set_present: "set (present xs) = {d. Some d \<in> set xs}"
  by (auto simp: present_def split: option.splits)

lemma set_group_keys: "set (group_keys ks) = {v. Some v \<in> set ks}"
  by (simp add: group_keys_def set_present)

lemma distinct_group_keys: "distinct (group_keys ks)"
  by (simp add: group_keys_def)

lemma sorted_group_keys: "sorted (group_keys ks)"
  by (simp add: group_keys_def)

lemma groupby_keys: "map fst (groupby key df) = group_keys (map key df)"
  by (simp add: groupby_def comp_def)

lemma groupby_member:
  "(v, g) \<in> set (groupby key df) \<longleftrightarrow>
     (\<exists>r\<in>set df. key r = Some v) \<and> g = filter (\<lambda>r. key r = Some v) df"
proof -
  have "Some v \<in> key ` set df \<longleftrightarrow> (\<exists>r\<in>set df. key r = Some v)"
  proof
    assume "Some v \<in> key ` set df"
    then obtain r where "r \<in> set df" "Some v = key r" by (rule imageE)
    then show "\<exists>r\<in>set df. key r = Some v" by (intro bexI [of _ r]) simp_all
  next
    assume "\<exists>r\<in>set df. key r = Some v"
    then obtain r where "r \<in> set df" "key r = Some v" by (rule bexE)
    then show "Some v \<in> key ` set df" by (intro image_eqI [of _ _ r]) simp_all
  qed
  then have "v \<in> set (group_keys (map key df)) \<longleftrightarrow> (\<exists>r\<in>set df. key r = Some v)"
    by (simp add: set_group_keys)
  then show ?thesis
    unfolding groupby_def by (simp add: image_iff)
qed

subsection \<open>The 7-day window\<close>


lemma summary_row:
  assumes "s \<in> set (summary now df)"
  shows "Trips_7_days s = length [t \<leftarrow> df. ts_ge (Trip_Date t) (date_cutoff now)
                                   \<and> Vehicle_ID t = Some (S_Vehicle_ID s) \<and> Trip_ID t \<noteq> None]
       \<and> Distance_7_days s = fsum (map Distance [t \<leftarrow> df. ts_ge (Trip_Date t) (date_cutoff now)
                                   \<and> Vehicle_ID t = Some (S_Vehicle_ID s)])"
proof -
  from assms obtain v g where vg: "(v, g) \<in> set (groupby Vehicle_ID (recent_trips now df))"
    and s: "s = \<lparr>S_Vehicle_ID = v, Trips_7_days = count_col (map Trip_ID g),
                 Distance_7_days = fsum (map Distance g)\<rparr>"
    by (auto simp: summary_def)
  from vg have g: "g = [t \<leftarrow> df. ts_ge (Trip_Date t) (date_cutoff now) \<and> Vehicle_ID t = Some v]"
    by (simp add: groupby_member recent_trips_def)
  have "count_col (map Trip_ID g) = length [t \<leftarrow> g. Trip_ID t \<noteq> None]"
    by (simp add: count_col_def filter_map comp_def)
  with s g show ?thesis by simp
qed



text \<open>
  Claim C10. A trip whose Trip Date did not parse has NaT in that column after
  preprocessing; NaT is neither at or after the cutoff nor before it, the trip is not in
  the 7-day window, and the summary is the one of the frame without that row.
\<close>

theorem unparsed_date_excluded:
  assumes "i < length df"
    and "Trip_Date (preprocess f df ! i) = None"
  shows "\<not> ts_ge (Trip_Date (preprocess f df ! i)) (date_cutoff now)
       \<and> \<not> ts_lt (Trip_Date (preprocess f df ! i)) (date_cutoff now)
       \<and> preprocess f df ! i \<notin> set (recent_trips now (preprocess f df))
       \<and> recent_trips now (preprocess f df)
           = recent_trips now (take i (preprocess f df) @ drop (Suc i) (preprocess f df))
       \<and> summary now (preprocess f df)
           = summary now (take i (preprocess f df) @ drop (Suc i) (preprocess f df))"
proof -
  let ?p = "preprocess f df"
  from assms(1) have i: "i < length ?p" by (simp add: preprocess_length)
  have nge: "\<not> ts_ge (Trip_Date (?p ! i)) (date_cutoff now)"
    and nlt: "\<not> ts_lt (Trip_Date (?p ! i)) (date_cutoff now)"
    using assms(2) by (simp_all add: ts_ge_def ts_lt_def)
  from nge have nin: "?p ! i \<notin> set (recent_trips now ?p)"
    by (simp add: recent_trips_def)
  from i have "?p = take i ?p @ ?p ! i # drop (Suc i) ?p"
    by (rule id_take_nth_drop)
  then have "recent_trips now ?p = recent_trips now (take i ?p @ ?p ! i # drop (Suc i) ?p)"
    by simp
  also have "\<dots> = recent_trips now (take i ?p @ drop (Suc i) ?p)"
    using nge by (simp add: recent_trips_def)
  finally have rec: "recent_trips now ?p = recent_trips now (take i ?p @ drop (Suc i) ?p)" .
  then have "summary now ?p = summary now (take i ?p @ drop (Suc i) ?p)"
    by (simp add: summary_def)
  with nge nlt nin rec show ?thesis by blast
qed

theorem unparsed_date_excluded_witness:
  "Trip_Date (preprocess (\<lambda>col. col) sample_raw ! 1) = None
   \<and> preprocess (\<lambda>col. col) sample_raw ! 1
        \<notin> set (recent_trips sample_now (preprocess (\<lambda>col. col) sample_raw))
   \<and> summary sample_now (preprocess (\<lambda>col. col) sample_raw)
        = summary sample_now (take 1 (preprocess (\<lambda>col. col) sample_raw)
                              @ drop (Suc 1) (preprocess (\<lambda>col. col) sample_raw))
   \<and> summary sample_now (preprocess (\<lambda>col. col) sample_raw)
        = [\<lparr>S_Vehicle_ID = 1, Trips_7_days = 1, Distance_7_days = Fin 50\<rparr>]"
proof -
  have l: "1 < length sample_raw"
    by (simp add: sample_raw_def)
  have n: "Trip_Date (preprocess (\<lambda>col. col) sample_raw ! 1) = None"
    by code_simp
  have c: "summary sample_now (preprocess (\<lambda>col. col) sample_raw)
        = [\<lparr>S_Vehicle_ID = 1, Trips_7_days = 1, Distance_7_days = Fin 50\<rparr>]"
    by code_simp
  from unparsed_date_excluded [OF l n, of sample_now] n c show ?thesis by blast
qed

subsection \<open>Slow trips\<close>

lemma fdiv_NaN_right: "fdiv a NaN = NaN"
  by (cases a) simp_all

lemma fdiv_zero: "fdiv a (Fin 0) = PInf \<or> fdiv a (Fin 0) = NInf \<or> fdiv a (Fin 0) = NaN"
  by (cases a) simp_all

text \<open>
  Claim C7. Speed (km/h) is Distance / Duration (hrs) for every trip; the division is
  the total float division, so a missing duration gives a missing speed and a zero
  duration an infinite or missing one, and nothing is raised. The report is exactly
  the trips whose speed compares below 10, and a trip whose speed is missing is not in it.
\<close>

theorem long_trips_speed:
  fixes df :: "('k, 'c) ptrip list"
  shows "map Speed_kmh (map with_speed df) = map (\<lambda>r. fdiv (Distance r) (Duration_hrs r)) df
   \<and> long_trips df = [r \<leftarrow> map with_speed df. flt (Speed_kmh r) (Fin 10)]
   \<and> (\<forall>r\<in>set df. Duration_hrs r = NaN \<longrightarrow> Speed_kmh (with_speed r) = NaN)
   \<and> (\<forall>r\<in>set df. Duration_hrs r = Fin 0 \<longrightarrow>
         Speed_kmh (with_speed r) = PInf \<or> Speed_kmh (with_speed r) = NInf
         \<or> Speed_kmh (with_speed r) = NaN)
   \<and> (\<forall>r\<in>set df. Speed_kmh (with_speed r) = NaN \<longrightarrow> with_speed r \<notin> set (long_trips df))
   \<and> (\<forall>r\<in>set df. with_speed r \<in> set (long_trips df)
         \<longleftrightarrow> flt (fdiv (Distance r) (Duration_hrs r)) (Fin 10))"
proof (intro conjI ballI impI)
  show "map Speed_kmh (map with_speed df) = map (\<lambda>r. fdiv (Distance r) (Duration_hrs r)) df"
    by (simp add: with_speed_def)
  show "long_trips df = [r \<leftarrow> map with_speed df. flt (Speed_kmh r) (Fin 10)]"
    by (simp add: long_trips_def)
next
  fix r :: "('k, 'c) ptrip" assume "Duration_hrs r = NaN"
  then show "Speed_kmh (with_speed r) = NaN"
    by (simp add: with_speed_def fdiv_NaN_right)
next
  fix r :: "('k, 'c) ptrip" assume "Duration_hrs r = Fin 0"
  then show "Speed_kmh (with_speed r) = PInf \<or> Speed_kmh (with_speed r) = NInf
         \<or> Speed_kmh (with_speed r) = NaN"
    using fdiv_zero [of "Distance r"] by (simp add: with_speed_def)
next
  fix r :: "('k, 'c) ptrip" assume "Speed_kmh (with_speed r) = NaN"
  then show "with_speed r \<notin> set (long_trips df)"
    by (simp add: long_trips_def)
next
  fix r assume r: "r \<in> set df"
  have "Speed_kmh (with_speed r) = fdiv (Distance r) (Duration_hrs r)"
    by (simp add: with_speed_def)
  with r show "with_speed r \<in> set (long_trips df)
         \<longleftrightarrow> flt (fdiv (Distance r) (Duration_hrs r)) (Fin 10)"
    by (auto simp: long_trips_def)
qed

theorem long_trips_speed_witness:
  "map Duration_hrs sample_speed_trips = [NaN, Fin 0, Fin 2, Fin 1]
   \<and> map Speed_kmh (map with_speed sample_speed_trips) = [NaN, PInf, Fin 6, Fin 45]
   \<and> map Trip_ID (long_trips sample_speed_trips) = [Some 3]"
proof -
  have d: "map Duration_hrs sample_speed_trips = [NaN, Fin 0, Fin 2, Fin 1]"
    by (simp add: sample_speed_trips_def)
  have e: "map (\<lambda>r. fdiv (Distance r) (Duration_hrs r)) sample_speed_trips
             = [NaN, PInf, Fin 6, Fin 45]"
    by (simp add: sample_speed_trips_def)
  from long_trips_speed [of sample_speed_trips] e
  have s: "map Speed_kmh (map with_speed sample_speed_trips) = [NaN, PInf, Fin 6, Fin 45]"
    and l: "long_trips sample_speed_trips
              = [r \<leftarrow> map with_speed sample_speed_trips. flt (Speed_kmh r) (Fin 10)]"
    by simp_all
  have "map Trip_ID [r \<leftarrow> map with_speed sample_speed_trips. flt (Speed_kmh r) (Fin 10)] = [Some 3]"
    by (simp add: sample_speed_trips_def with_speed_def)
  with d s l show ?thesis by simp
qed

subsection \<open>Long-term utilization\<close>

lemma agg_min_Min:
  "agg_min xs = (if {d. Some d \<in> set xs} = {} then None else Some (Min {d. Some d \<in> set xs}))"
proof (cases "present xs")
  case Nil
  with set_present [of xs] show ?thesis by (simp add: agg_min_def)
next
  case (Cons d ds)
  with set_present [of xs] have "{d. Some d \<in> set xs} = set (d # ds)" by simp
  with Cons show ?thesis by (simp add: agg_min_def Min.set_eq_fold del: set_simps)
qed

lemma agg_max_Max:
  "agg_max xs = (if {d. Some d \<in> set xs} = {} then None else Some (Max {d. Some d \<in> set xs}))"
proof (cases "present xs")
  case Nil
  with set_present [of xs] show ?thesis by (simp add: agg_max_def)
next
  case (Cons d ds)
  with set_present [of xs] have "{d. Some d \<in> set xs} = set (d # ds)" by simp
  with Cons show ?thesis by (simp add: agg_max_def Max.set_eq_fold del: set_simps)
qed



lemma long_term_row:
  assumes "s \<in> set (fst (long_term df))"
  shows "\<exists>r\<in>set (full_summary df).
           F_Vehicle_ID s = F_Vehicle_ID r \<and> Total_Trips s = Total_Trips r
         \<and> First_Trip_Date s = First_Trip_Date r \<and> Last_Trip_Date s = Last_Trip_Date r
         \<and> Days_Active s = Days_Active r \<and> Avg_Trips_Week s = Avg_Trips_Week r
         \<and> Status s = status_of (snd (long_term df)) r"
  using assms by (auto simp: long_term_def Let_def)


lemma flt_not_fge: "flt a b \<Longrightarrow> \<not> fge a b"
  by (cases a; cases b) simp_all







text \<open>
  Claim C1 fails as stated: the script has no insufficient-data report. When every
  vehicle is younger than 28 days, as the single vehicle of the sample below with its
  8 days, the analysis shows its usual table next to a fleet average that is NaN.
\<close>

theorem fleet_avg_nan_shown:
  "long_term [sample_trip_old, sample_trip_cutoff]
     = ([\<lparr>F_Vehicle_ID = 1, Total_Trips = 2, Total_Distance_km = Fin 110,
          First_Trip_Date = Some 0, Last_Trip_Date = Some 604800000000000,
          Days_Active = Fin 8, Avg_Trips_Week = Fin (7 / 4), Status = ''Too New''\<rparr>],
        NaN)"
  by code_simp

text \<open>
  Claim C1, amended. If every vehicle has Days Active below 28, the long-term analysis
  reports no insufficient-data condition: the fleet average it shows is NaN, the table
  has a row for every vehicle, and every vehicle is classified "Too New", so that the
  NaN average decides no Underutilized/Utilized classification.
\<close>

theorem fleet_avg_nan_all_too_new:
  assumes "\<forall>r\<in>set (full_summary df). flt (Days_Active r) (Fin 28)"
  shows "snd (long_term df) = NaN
       \<and> map F_Vehicle_ID (fst (long_term df)) = map F_Vehicle_ID (full_summary df)
       \<and> (\<forall>s\<in>set (fst (long_term df)). Status s = ''Too New'')"
proof -
  from assms have "filtered_summary (full_summary df) = []"
    by (auto simp: filtered_summary_def filter_empty_conv dest: flt_not_fge)
  then have avg: "snd (long_term df) = NaN"
    by (simp add: long_term_def Let_def fleet_avg_def fmean_def dropna_f_def)
  have keys: "map F_Vehicle_ID (fst (long_term df)) = map F_Vehicle_ID (full_summary df)"
    by (simp add: long_term_def Let_def comp_def)
  have "\<forall>s\<in>set (fst (long_term df)). Status s = ''Too New''"
  proof
    fix s assume "s \<in> set (fst (long_term df))"
    from long_term_row [OF this] obtain r where "r \<in> set (full_summary df)"
      and "Status s = status_of (snd (long_term df)) r"
      by blast
    with assms show "Status s = ''Too New''"
      by (simp add: status_of_def)
  qed
  with avg keys show ?thesis by blast
qed

theorem fleet_avg_nan_all_too_new_witness:
  "map Days_Active (full_summary [sample_row 1 1 0, sample_row 2 1 26, sample_row 3 2 3])
        = [Fin 27, Fin 1]
   \<and> snd (long_term [sample_row 1 1 0, sample_row 2 1 26, sample_row 3 2 3]) = NaN
   \<and> map Status (fst (long_term [sample_row 1 1 0, sample_row 2 1 26, sample_row 3 2 3]))
        = [''Too New'', ''Too New'']"
proof -
  let ?df = "[sample_row 1 1 0, sample_row 2 1 26, sample_row 3 2 3]"
  have d: "map Days_Active (full_summary ?df) = [Fin 27, Fin 1]"
    by code_simp
  have h: "\<forall>r\<in>set (full_summary ?df). flt (Days_Active r) (Fin 28)"
  proof
    fix r assume "r \<in> set (full_summary ?df)"
    then have "Days_Active r \<in> set (map Days_Active (full_summary ?df))"
      by simp
    with d show "flt (Days_Active r) (Fin 28)" by auto
  qed
  have n: "length (fst (long_term ?df)) = 2"
    by code_simp
  from fleet_avg_nan_all_too_new [OF h]
  have avg: "snd (long_term ?df) = NaN"
    and st: "\<forall>s\<in>set (fst (long_term ?df)). Status s = ''Too New''"
    by blast+
  from st have "\<forall>x\<in>set (map Status (fst (long_term ?df))). x = ''Too New''"
    by simp
  with n have "map Status (fst (long_term ?df)) = [''Too New'', ''Too New'']"
    by (simp add: list_eq_iff_nth_eq all_set_conv_all_nth numeral_2_eq_2 less_Suc_eq)
  with d avg show ?thesis by blast
qed

subsection \<open>Sorting\<close>

lemma mset_insort_by: "mset (insort_by le x xs) = add_mset x (mset xs)"
  by (induction xs) simp_all

lemma mset_sort_by: "mset (sort_by le xs) = mset xs"
  by (induction xs) (simp_all add: sort_by_def mset_insort_by)

lemma set_insort_by: "set (insort_by le x xs) = insert x (set xs)"
  by (induction xs) auto

lemma sorted_insort_by:
  assumes total: "\<And>a b. le a b \<or> le b a"
    and trans: "\<And>a b c. le a b \<Longrightarrow> le b c \<Longrightarrow> le a c"
  shows "sorted_wrt le xs \<Longrightarrow> sorted_wrt le (insort_by le x xs)"
proof (induction xs)
  case Nil
  show ?case by simp
next
  case (Cons y ys)
  show ?case
  proof (cases "le x y")
    case True
    with Cons.prems trans [of x y] show ?thesis by auto
  next
    case False
    with total [of x y] have "le y x" by blast
    with False Cons show ?thesis by (auto simp: set_insort_by)
  qed
qed

lemma sorted_sort_by:
  assumes "\<And>a b. le a b \<or> le b a"
    and "\<And>a b c. le a b \<Longrightarrow> le b c \<Longrightarrow> le a c"
  shows "sorted_wrt le (sort_by le xs)"
proof (induction xs)
  case Nil
  show ?case by (simp add: sort_by_def)
next
  case (Cons x xs)
  from sorted_insort_by [of le, OF assms Cons] show ?case
    by (simp add: sort_by_def)
qed

lemma opt_le_total: "opt_le a b \<or> opt_le b a"
  by (cases a; cases b) auto

lemma opt_le_trans: "opt_le a b \<Longrightarrow> opt_le b c \<Longrightarrow> opt_le a c"
  by (cases a; cases b; cases c) auto

lemma opt_le_antisym: "opt_le a b \<Longrightarrow> opt_le b a \<Longrightarrow> a = b"
  by (cases a; cases b) auto

lemma sort_key_le_total: "sort_key_le a b \<or> sort_key_le b a"
  using opt_le_total [of "Trip_DateTime a" "Trip_DateTime b"]
    opt_le_total [of "Vehicle_ID a" "Vehicle_ID b"]
  by (auto simp: sort_key_le_def)

lemma sort_key_le_trans:
  assumes "sort_key_le a b" and "sort_key_le b c"
  shows "sort_key_le a c"
proof (cases "Vehicle_ID a = Vehicle_ID b")
  case ab: True
  show ?thesis
  proof (cases "Vehicle_ID b = Vehicle_ID c")
    case True
    with ab assms show ?thesis
      by (auto simp: sort_key_le_def intro: opt_le_trans)
  next
    case False
    with ab assms show ?thesis
      by (auto simp: sort_key_le_def)
  qed
next
  case ab: False
  show ?thesis
  proof (cases "Vehicle_ID b = Vehicle_ID c")
    case True
    with ab assms show ?thesis
      by (auto simp: sort_key_le_def)
  next
    case bc: False
    from ab bc assms have 1: "opt_le (Vehicle_ID a) (Vehicle_ID b)"
      and 2: "opt_le (Vehicle_ID b) (Vehicle_ID c)"
      by (simp_all add: sort_key_le_def)
    have "Vehicle_ID a \<noteq> Vehicle_ID c"
    proof
      assume "Vehicle_ID a = Vehicle_ID c"
      with 1 2 have "Vehicle_ID a = Vehicle_ID b" by (simp add: opt_le_antisym)
      with ab show False by simp
    qed
    with opt_le_trans [OF 1 2] show ?thesis
      by (simp add: sort_key_le_def)
  qed
qed

lemma lexsort_stable_ok: "lexsort_ok lexsort_stable df"
proof -
  let ?le = "\<lambda>i j. sort_key_le (df ! i) (df ! j)"
  have "\<And>a b. ?le a b \<or> ?le b a"
    by (rule sort_key_le_total)
  moreover have "\<And>a b c. ?le a b \<Longrightarrow> ?le b c \<Longrightarrow> ?le a c"
    by (rule sort_key_le_trans)
  ultimately have "sorted_wrt ?le (sort_by ?le [0..<length df])"
    by (rule sorted_sort_by)
  then show ?thesis
    by (simp add: lexsort_ok_def lexsort_stable_def mset_sort_by)
qed

subsection \<open>Idle time\<close>

lemma sorted_rows_eq: "sorted_rows lexsort df = map (\<lambda>i. df ! i) (lexsort df)"
  by (simp add: sorted_rows_def trips_sorted_def take_rows_def comp_def)

lemma trips_sorted_labels: "map fst (trips_sorted lexsort df) = lexsort df"
  by (simp add: trips_sorted_def take_rows_def comp_def)

lemma length_sorted_rows: "length (sorted_rows lexsort df) = length (trips_sorted lexsort df)"
  by (simp add: sorted_rows_def)

lemma sorted_rows_perm:
  assumes "lexsort_ok lexsort df"
  shows "mset (sorted_rows lexsort df) = mset df"
proof -
  from assms have "mset (lexsort df) = mset [0..<length df]"
    by (simp add: lexsort_ok_def)
  then have "image_mset (\<lambda>i. df ! i) (mset (lexsort df))
           = image_mset (\<lambda>i. df ! i) (mset [0..<length df])"
    by simp
  then have "mset (map (\<lambda>i. df ! i) (lexsort df)) = mset (map (\<lambda>i. df ! i) [0..<length df])"
    by simp
  then show ?thesis
    by (simp add: sorted_rows_eq map_nth)
qed

lemma sorted_rows_sorted:
  assumes "lexsort_ok lexsort df"
  shows "sorted_wrt sort_key_le (sorted_rows lexsort df)"
  using assms by (simp add: lexsort_ok_def sorted_rows_eq sorted_wrt_map)

lemma labels_distinct:
  assumes "lexsort_ok lexsort df"
  shows "distinct (map fst (trips_sorted lexsort df))"
proof -
  from assms have "mset (lexsort df) = mset [0..<length df]"
    by (simp add: lexsort_ok_def)
  from mset_eq_imp_distinct_iff [OF this] show ?thesis
    by (simp add: trips_sorted_labels)
qed

lemma same_vehicle_between:
  assumes srt: "sorted_wrt sort_key_le rows"
    and "j < k" and "k < i" and "i < length rows"
    and same: "Vehicle_ID (rows ! j) = Vehicle_ID (rows ! i)"
  shows "Vehicle_ID (rows ! k) = Vehicle_ID (rows ! i)"
proof (rule ccontr)
  assume ne: "Vehicle_ID (rows ! k) \<noteq> Vehicle_ID (rows ! i)"
  from srt assms(2-4) have "sort_key_le (rows ! j) (rows ! k)"
    and "sort_key_le (rows ! k) (rows ! i)"
    by (simp_all add: sorted_wrt_iff_nth_less)
  with ne same have "opt_le (Vehicle_ID (rows ! i)) (Vehicle_ID (rows ! k))"
    and "opt_le (Vehicle_ID (rows ! k)) (Vehicle_ID (rows ! i))"
    by (auto simp: sort_key_le_def split: if_splits)
  then have "Vehicle_ID (rows ! i) = Vehicle_ID (rows ! k)"
    by (rule opt_le_antisym)
  with ne show False by simp
qed

lemma prev_in_group_adjacent:
  assumes srt: "sorted_wrt sort_key_le rows" and i: "i < length rows"
  shows "prev_in_group rows i =
     (if 0 < i \<and> Vehicle_ID (rows ! i) \<noteq> None
          \<and> Vehicle_ID (rows ! (i - 1)) = Vehicle_ID (rows ! i)
      then Some (rows ! (i - 1)) else None)"
proof (cases "Vehicle_ID (rows ! i)")
  case None
  then show ?thesis by (simp add: prev_in_group_def)
next
  case (Some v)
  show ?thesis
  proof (cases i)
    case 0
    with Some show ?thesis by (simp add: prev_in_group_def)
  next
    case (Suc n)
    with i have n: "n < length rows" by simp
    then have tk: "rev (take i rows) = rows ! n # rev (take n rows)"
      by (simp add: Suc take_Suc_conv_app_nth)
    show ?thesis
    proof (cases "Vehicle_ID (rows ! n) = Some v")
      case True
      with Some Suc tk show ?thesis by (simp add: prev_in_group_def)
    next
      case False
      have "\<not> (\<exists>x\<in>set (take n rows). Vehicle_ID x = Some v)"
      proof
        assume "\<exists>x\<in>set (take n rows). Vehicle_ID x = Some v"
        then obtain j where j: "j < n" and "Vehicle_ID (rows ! j) = Some v"
          using n by (auto simp: in_set_conv_nth)
        with Some have "Vehicle_ID (rows ! j) = Vehicle_ID (rows ! i)" by simp
        from same_vehicle_between [OF srt j _ i this, of ] Suc Some False
        show False by simp
      qed
      then have "find (\<lambda>r. Vehicle_ID r = Some v) (rev (take n rows)) = None"
        by (simp add: find_None_iff)
      with False Some Suc tk show ?thesis by (simp add: prev_in_group_def)
    qed
  qed
qed

lemma idle_time_adjacent:
  assumes "sorted_wrt sort_key_le rows" and "i < length rows"
  shows "idle_time_hrs rows i =
     (if 0 < i \<and> Vehicle_ID (rows ! i) \<noteq> None
          \<and> Vehicle_ID (rows ! (i - 1)) = Vehicle_ID (rows ! i)
      then fdiv (total_seconds (tdelta (Trip_DateTime (rows ! i))
                                       (Trip_DateTime (rows ! (i - 1))))) (Fin 3600)
      else NaN)"
  by (simp add: idle_time_hrs_def prev_in_group_adjacent [OF assms])

lemma fgt_NaN: "\<not> fgt NaN x"
  by (cases x) (simp_all add: fgt_def)

lemma idle_time_no_vehicle: "Vehicle_ID (rows ! i) = None \<Longrightarrow> idle_time_hrs rows i = NaN"
  by (simp add: idle_time_hrs_def prev_in_group_def)

lemma length_trips_sorted:
  assumes "lexsort_ok lexsort df"
  shows "length (trips_sorted lexsort df) = length df"
proof -
  from assms have "size (mset (lexsort df)) = size (mset [0..<length df])"
    by (simp only: lexsort_ok_def)
  then show ?thesis
    by (simp add: trips_sorted_def take_rows_def)
qed

lemma with_idle_member:
  assumes "(l, r, h) \<in> set (with_idle_time lexsort df)"
  shows "\<exists>i<length (trips_sorted lexsort df).
           l = fst (trips_sorted lexsort df ! i) \<and> r = sorted_rows lexsort df ! i
         \<and> h = idle_time_hrs (sorted_rows lexsort df) i"
  using assms by (auto simp: with_idle_time_def Let_def sorted_rows_def)

lemma high_idle_has_vehicle:
  assumes "(l, r, h) \<in> set (with_idle_time lexsort df)" and "fgt h (Fin 6)"
  shows "h \<noteq> NaN \<and> Vehicle_ID r \<noteq> None"
proof -
  from with_idle_member [OF assms(1)] obtain i
    where r: "r = sorted_rows lexsort df ! i"
      and h: "h = idle_time_hrs (sorted_rows lexsort df) i"
    by blast
  from assms(2) have n: "h \<noteq> NaN"
    using fgt_NaN by auto
  with h r idle_time_no_vehicle [of "sorted_rows lexsort df" i] have "Vehicle_ID r \<noteq> None"
    by auto
  with n show ?thesis by simp
qed

lemma high_idle_report_eq:
  "high_idle_report lexsort df =
     map (\<lambda>(l, r, h). \<lparr>I_index = l, I_Vehicle_ID = Vehicle_ID r,
                        I_Trip_ID = Trip_ID r, Idle_Time_hrs = h\<rparr>)
         (filter (\<lambda>(l, r, h). fgt h (Fin 6) \<and> Trip_ID r \<noteq> None) (with_idle_time lexsort df))"
proof -
  let ?proj = "\<lambda>(l, r, h). \<lparr>I_index = l, I_Vehicle_ID = Vehicle_ID r,
                             I_Trip_ID = Trip_ID r, Idle_Time_hrs = h\<rparr>"
  let ?w = "with_idle_time lexsort df"
  have "high_idle_report lexsort df =
      map ?proj (filter (\<lambda>(l, r, h). fgt h (Fin 6)
                           \<and> Vehicle_ID r \<noteq> None \<and> Trip_ID r \<noteq> None \<and> h \<noteq> NaN) ?w)"
    by (simp add: high_idle_report_def dropna_idle_def high_idle_def filter_map comp_def
        split_def)
  also have "filter (\<lambda>(l, r, h). fgt h (Fin 6)
                           \<and> Vehicle_ID r \<noteq> None \<and> Trip_ID r \<noteq> None \<and> h \<noteq> NaN) ?w
           = filter (\<lambda>(l, r, h). fgt h (Fin 6) \<and> Trip_ID r \<noteq> None) ?w"
  proof (rule filter_cong [OF refl])
    fix x assume x: "x \<in> set ?w"
    obtain l r h where lrh: "x = (l, r, h)" by (cases x) auto
    from x lrh high_idle_has_vehicle [of l r h lexsort df]
    show "(case x of (l, r, h) \<Rightarrow> fgt h (Fin 6)
                           \<and> Vehicle_ID r \<noteq> None \<and> Trip_ID r \<noteq> None \<and> h \<noteq> NaN)
        = (case x of (l, r, h) \<Rightarrow> fgt h (Fin 6) \<and> Trip_ID r \<noteq> None)"
      by auto
  qed
  finally show ?thesis .
qed

lemma reported_label_idle:
  assumes ok: "lexsort_ok lexsort df"
    and i: "i < length df"
    and rep: "fst (trips_sorted lexsort df ! i) \<in> set (map I_index (high_idle_report lexsort df))"
  shows "fgt (idle_time_hrs (sorted_rows lexsort df) i) (Fin 6)"
proof -
  from rep obtain l r h where m: "(l, r, h) \<in> set (with_idle_time lexsort df)"
    and g: "fgt h (Fin 6)" and l: "l = fst (trips_sorted lexsort df ! i)"
    by (auto simp: high_idle_report_eq)
  from with_idle_member [OF m] obtain k where k: "k < length (trips_sorted lexsort df)"
    and lk: "l = fst (trips_sorted lexsort df ! k)"
    and h: "h = idle_time_hrs (sorted_rows lexsort df) k"
    by blast
  from i have i': "i < length (trips_sorted lexsort df)"
    by (simp add: length_trips_sorted [OF ok])
  from l lk k i' have "map fst (trips_sorted lexsort df) ! k = map fst (trips_sorted lexsort df) ! i"
    by simp
  moreover from k i' have "k < length (map fst (trips_sorted lexsort df))"
    and "i < length (map fst (trips_sorted lexsort df))"
    by simp_all
  ultimately have "k = i"
    using labels_distinct [OF ok] by (simp only: nth_eq_iff_index_eq)
  with g h show ?thesis by simp
qed

text \<open>
  Claim C5 fails as stated: \<open>dropna()\<close> runs on the three columns shown, so a row with
  an idle time above 6 hours is left out when its Trip ID is missing. In the sample, the
  trip of day 1 comes 24 hours after the previous trip of its vehicle and passes the
  filter of line 164, yet the report is empty.
\<close>

theorem high_idle_row_dropped:
  "lexsort_ok lexsort_stable sample_idle_no_id
   \<and> map fst (high_idle lexsort_stable sample_idle_no_id) = [1]
   \<and> map (Trip_ID \<circ> fst \<circ> snd) (high_idle lexsort_stable sample_idle_no_id) = [None]
   \<and> map (snd \<circ> snd) (high_idle lexsort_stable sample_idle_no_id) = [Fin 24]
   \<and> high_idle_report lexsort_stable sample_idle_no_id = []"
  by code_simp

text \<open>
  Claim C5, amended. The analysis sorts the trips by (Vehicle ID, Trip DateTime); the
  idle time of a row is the difference in hours from the previous trip of the same
  vehicle, which in the sorted frame is the row just before it, and is missing for the
  first trip of a vehicle. The report is exactly the rows with an idle time above 6
  hours whose Trip ID is present; the first trip of a vehicle is never in it.
\<close>

theorem high_idle_reported:
  assumes "lexsort_ok lexsort df"
  shows "mset (sorted_rows lexsort df) = mset df
       \<and> sorted_wrt sort_key_le (sorted_rows lexsort df)
       \<and> (\<forall>i<length df. idle_time_hrs (sorted_rows lexsort df) i =
            (if 0 < i \<and> Vehicle_ID (sorted_rows lexsort df ! i) \<noteq> None
                 \<and> Vehicle_ID (sorted_rows lexsort df ! (i - 1))
                     = Vehicle_ID (sorted_rows lexsort df ! i)
             then fdiv (total_seconds (tdelta (Trip_DateTime (sorted_rows lexsort df ! i))
                                  (Trip_DateTime (sorted_rows lexsort df ! (i - 1))))) (Fin 3600)
             else NaN))
       \<and> high_idle_report lexsort df =
            map (\<lambda>(l, r, h). \<lparr>I_index = l, I_Vehicle_ID = Vehicle_ID r,
                               I_Trip_ID = Trip_ID r, Idle_Time_hrs = h\<rparr>)
                (filter (\<lambda>(l, r, h). fgt h (Fin 6) \<and> Trip_ID r \<noteq> None)
                        (with_idle_time lexsort df))
       \<and> (\<forall>i<length df.
            (\<forall>j<i. Vehicle_ID (sorted_rows lexsort df ! j) \<noteq> Vehicle_ID (sorted_rows lexsort df ! i))
            \<longrightarrow> idle_time_hrs (sorted_rows lexsort df) i = NaN
              \<and> fst (trips_sorted lexsort df ! i)
                    \<notin> set (map I_index (high_idle_report lexsort df)))"
proof -
  let ?rows = "sorted_rows lexsort df"
  note perm = sorted_rows_perm [OF assms]
  note srt = sorted_rows_sorted [OF assms]
  have len: "length ?rows = length df"
    by (simp add: length_sorted_rows length_trips_sorted [OF assms])
  have idle: "\<forall>i<length df. idle_time_hrs ?rows i =
            (if 0 < i \<and> Vehicle_ID (?rows ! i) \<noteq> None
                 \<and> Vehicle_ID (?rows ! (i - 1)) = Vehicle_ID (?rows ! i)
             then fdiv (total_seconds (tdelta (Trip_DateTime (?rows ! i))
                                  (Trip_DateTime (?rows ! (i - 1))))) (Fin 3600)
             else NaN)"
    using idle_time_adjacent [OF srt] len by simp
  have first: "\<forall>i<length df.
            (\<forall>j<i. Vehicle_ID (?rows ! j) \<noteq> Vehicle_ID (?rows ! i))
            \<longrightarrow> idle_time_hrs ?rows i = NaN
              \<and> fst (trips_sorted lexsort df ! i)
                    \<notin> set (map I_index (high_idle_report lexsort df))"
  proof (intro allI impI)
    fix i assume i: "i < length df"
      and f: "\<forall>j<i. Vehicle_ID (?rows ! j) \<noteq> Vehicle_ID (?rows ! i)"
    have "\<not> (0 < i \<and> Vehicle_ID (?rows ! (i - 1)) = Vehicle_ID (?rows ! i))"
    proof
      assume a: "0 < i \<and> Vehicle_ID (?rows ! (i - 1)) = Vehicle_ID (?rows ! i)"
      then have "i - 1 < i" by simp
      with f a show False by blast
    qed
    with idle i have n: "idle_time_hrs ?rows i = NaN"
      by auto
    have "fst (trips_sorted lexsort df ! i) \<notin> set (map I_index (high_idle_report lexsort df))"
    proof
      assume "fst (trips_sorted lexsort df ! i) \<in> set (map I_index (high_idle_report lexsort df))"
      from reported_label_idle [OF assms i this] n fgt_NaN show False by simp
    qed
    with n show "idle_time_hrs ?rows i = NaN
              \<and> fst (trips_sorted lexsort df ! i)
                    \<notin> set (map I_index (high_idle_report lexsort df))"
      by simp
  qed
  from perm srt idle high_idle_report_eq [of lexsort df] first show ?thesis
    by blast
qed

theorem high_idle_reported_witness:
  "lexsort_ok lexsort_stable sample_idle_trips
   \<and> map fst (trips_sorted lexsort_stable sample_idle_trips) = [3, 1, 2, 0]
   \<and> map (idle_time_hrs (sorted_rows lexsort_stable sample_idle_trips)) [0, 1, 2, 3]
        = [NaN, Fin 24, NaN, Fin 2]
   \<and> high_idle_report lexsort_stable sample_idle_trips
        = [\<lparr>I_index = 1, I_Vehicle_ID = Some 1, I_Trip_ID = Some 2, Idle_Time_hrs = Fin 24\<rparr>]
   \<and> fst (trips_sorted lexsort_stable sample_idle_trips ! 0)
        \<notin> set (map I_index (high_idle_report lexsort_stable sample_idle_trips))"
proof -
  let ?df = "sample_idle_trips"
  have ok: "lexsort_ok lexsort_stable ?df"
    by (rule lexsort_stable_ok)
  have lab: "map fst (trips_sorted lexsort_stable ?df) = [3, 1, 2, 0]"
    and idle: "map (idle_time_hrs (sorted_rows lexsort_stable ?df)) [0, 1, 2, 3]
        = [NaN, Fin 24, NaN, Fin 2]"
    and rep: "high_idle_report lexsort_stable ?df
        = [\<lparr>I_index = 1, I_Vehicle_ID = Some 1, I_Trip_ID = Some 2, Idle_Time_hrs = Fin 24\<rparr>]"
    by code_simp+
  have l: "0 < length ?df"
    by (simp add: sample_idle_trips_def)
  from high_idle_reported [OF ok] l
  have "(\<forall>j<0. Vehicle_ID (sorted_rows lexsort_stable ?df ! j)
                  \<noteq> Vehicle_ID (sorted_rows lexsort_stable ?df ! 0))
        \<longrightarrow> fst (trips_sorted lexsort_stable ?df ! 0)
               \<notin> set (map I_index (high_idle_report lexsort_stable ?df))"
    by blast
  then have "fst (trips_sorted lexsort_stable ?df ! 0)
               \<notin> set (map I_index (high_idle_report lexsort_stable ?df))"
    by simp
  with ok lab idle rep show ?thesis by blast
qed

subsection \<open>Driver trip counts\<close>

lemma count_le_total: "count_le asc a b \<or> count_le asc b a"
  by (auto simp: count_le_def)

lemma count_le_trans: "count_le asc a b \<Longrightarrow> count_le asc b c \<Longrightarrow> count_le asc a c"
  by (auto simp: count_le_def split: if_splits)


lemma argsort_reversing_ok: "argsort_ok argsort_reversing asc keys"
proof -
  let ?le = "\<lambda>i j. count_le asc (keys ! i) (keys ! j)"
  have "\<And>a b. ?le a b \<or> ?le b a"
    by (rule count_le_total)
  moreover have "\<And>a b c. ?le a b \<Longrightarrow> ?le b c \<Longrightarrow> ?le a c"
    by (rule count_le_trans)
  ultimately have "sorted_wrt ?le (sort_by ?le (rev [0..<length keys]))"
    by (rule sorted_sort_by)
  then show ?thesis
    by (simp add: argsort_ok_def argsort_reversing_def mset_sort_by)
qed

lemma driver_stats_keys: "map D_Driver_ID (driver_stats df) = group_keys (map Driver_ID df)"
  by (simp add: driver_stats_def groupby_def comp_def)






end
